theory Spec2Isabelle
  imports Main "HOL-Library.Word"
begin

unbundle bit_operations_syntax

section \<open>Python values the cache depends on\<close>

text \<open>
  The exceptions of the Python runtime that the modelled code can raise.
\<close>

datatype pyerror = OverflowError | TypeError | ValueError | UnicodeEncodeError

text \<open>
  A \<^verbatim>\<open>datetime\<close> is modelled as the number of microseconds since
  0001-01-01T00:00:00 (the smallest datetime), a \<^verbatim>\<open>timedelta\<close> as a number of
  microseconds. Both Python types are bounded: a timedelta holds at most 999999999 days in
  either direction, and a datetime ends with the year 9999 (proleptic ordinal 3652059).
  Leaving either range raises \<^verbatim>\<open>OverflowError\<close>.
\<close>

type_synonym datetime = int

definition MAX_DELTA_DAYS :: int where
  "MAX_DELTA_DAYS = 999999999"

definition MAXORDINAL :: int where
  "MAXORDINAL = 3652059"

definition US_PER_SECOND :: int where
  "US_PER_SECOND = 1000000"

definition US_PER_DAY :: int where
  "US_PER_DAY = 86400 * 1000000"

definition datetime_in_range :: "datetime \<Rightarrow> bool" where
  "datetime_in_range t \<longleftrightarrow> 0 \<le> t \<and> t < MAXORDINAL * US_PER_DAY"

text \<open>\<^verbatim>\<open>timedelta(seconds=ttl)\<close> for an integer \<^verbatim>\<open>ttl\<close>.\<close>

definition timedelta_seconds :: "int \<Rightarrow> pyerror + int" where
  "timedelta_seconds ttl =
     (if \<bar>ttl div 86400\<bar> > MAX_DELTA_DAYS then Inl OverflowError
      else Inr (ttl * US_PER_SECOND))"

text \<open>\<^verbatim>\<open>datetime + timedelta\<close>.\<close>

definition datetime_add :: "datetime \<Rightarrow> int \<Rightarrow> pyerror + datetime" where
  "datetime_add t d =
     (if datetime_in_range (t + d) then Inr (t + d) else Inl OverflowError)"

section \<open>The cache store (class InMemoryCache)\<close>

text \<open>
  A stored record is the dictionary \<^verbatim>\<open>{"value": ..., "expires_at": ...}\<close>; the store
  \<^verbatim>\<open>_store\<close> is a dictionary from string keys to such records. The value type is a
  parameter: Python stores whatever object reference the caller passes.

  The body of each operation runs under the lock with no suspension point inside, so an
  operation is one atomic step on the store. The reading of \<^verbatim>\<open>datetime.utcnow()\<close>
  taken inside the operation is the argument \<open>now\<close>.
\<close>

record 'v cache_rec =
  rec_value :: 'v
  expires_at :: datetime

type_synonym 'v store = "string \<rightharpoonup> 'v cache_rec"

text \<open>
  \<^verbatim>\<open>get\<close>: a missing key gives \<^verbatim>\<open>None\<close>; the test \<^verbatim>\<open>not rec\<close> is false for every
  stored record, which is a dictionary of two entries. A record whose expiry lies strictly
  before the clock reading is deleted. The result is the pair of the returned value and
  the store afterwards.
\<close>

definition InMemoryCache_get :: "'v store \<Rightarrow> string \<Rightarrow> datetime \<Rightarrow> 'v option \<times> 'v store" where
  "InMemoryCache_get s key now =
     (case s key of
        None \<Rightarrow> (None, s)
      | Some r \<Rightarrow>
          if expires_at r < now then (None, s(key := None))
          else (Some (rec_value r), s))"

text \<open>
  \<^verbatim>\<open>set\<close>: the record is built first (which may raise), then assigned under the key.
  When the construction raises, the store is left as it was.
\<close>

definition InMemoryCache_set ::
  "'v store \<Rightarrow> string \<Rightarrow> 'v \<Rightarrow> int \<Rightarrow> datetime \<Rightarrow> pyerror + 'v store" where
  "InMemoryCache_set s key v ttl now =
     (case timedelta_seconds ttl of
        Inl e \<Rightarrow> Inl e
      | Inr d \<Rightarrow>
          (case datetime_add now d of
             Inl e \<Rightarrow> Inl e
           | Inr t \<Rightarrow> Inr (s(key \<mapsto> \<lparr>rec_value = v, expires_at = t\<rparr>))))"

section \<open>Key derivation (make_key)\<close>

text \<open>
  \<^verbatim>\<open>make_key(text)\<close> is \<^verbatim>\<open>"classify:" + hashlib.sha256(text.encode()).hexdigest()\<close>.
  A text is a Python \<^verbatim>\<open>str\<close>: a sequence of Unicode code points, here natural numbers
  below \<^verbatim>\<open>0x110000\<close>. \<^verbatim>\<open>str.encode()\<close> is UTF-8 and raises \<^verbatim>\<open>UnicodeEncodeError\<close> on a
  surrogate code point. The key itself is ASCII and is kept as a \<open>string\<close>.
\<close>

subsection \<open>UTF-8 encoding of a text\<close>

type_synonym byte = "8 word"

definition utf8_char :: "nat \<Rightarrow> pyerror + byte list" where
  "utf8_char c =
     (if c < 0x80 then Inr [of_nat c]
      else if c < 0x800 then Inr [of_nat (0xC0 + c div 64), of_nat (0x80 + c mod 64)]
      else if c < 0x10000 then
        (if 0xD800 \<le> c \<and> c \<le> 0xDFFF then Inl UnicodeEncodeError
         else Inr [of_nat (0xE0 + c div 4096), of_nat (0x80 + c div 64 mod 64),
                   of_nat (0x80 + c mod 64)])
      else Inr [of_nat (0xF0 + c div 262144), of_nat (0x80 + c div 4096 mod 64),
                of_nat (0x80 + c div 64 mod 64), of_nat (0x80 + c mod 64)])"

fun encode_utf8 :: "nat list \<Rightarrow> pyerror + byte list" where
  "encode_utf8 [] = Inr []"
| "encode_utf8 (c # cs) =
     (case utf8_char c of
        Inl e \<Rightarrow> Inl e
      | Inr bs \<Rightarrow> (case encode_utf8 cs of Inl e \<Rightarrow> Inl e | Inr rest \<Rightarrow> Inr (bs @ rest)))"

text \<open>The code points of an ASCII literal.\<close>

definition text_of :: "string \<Rightarrow> nat list" where
  "text_of s = map of_char s"

subsection \<open>SHA-256\<close>

text \<open>
  The hash of \<^verbatim>\<open>hashlib.sha256\<close>, following FIPS 180-4: the message is padded to a
  multiple of 64 bytes, cut into blocks of sixteen big-endian 32-bit words, and each block
  is compressed into the running state of eight words by 64 rounds over its message
  schedule. All arithmetic is modulo \<open>2 ^ 32\<close>, which is addition on \<open>32 word\<close>.
\<close>

type_synonym sha_state =
  "32 word \<times> 32 word \<times> 32 word \<times> 32 word \<times> 32 word \<times> 32 word \<times> 32 word \<times> 32 word"

definition K256 :: "32 word list" where
  "K256 =
    [0x428A2F98, 0x71374491, 0xB5C0FBCF, 0xE9B5DBA5,
     0x3956C25B, 0x59F111F1, 0x923F82A4, 0xAB1C5ED5,
     0xD807AA98, 0x12835B01, 0x243185BE, 0x550C7DC3,
     0x72BE5D74, 0x80DEB1FE, 0x9BDC06A7, 0xC19BF174,
     0xE49B69C1, 0xEFBE4786, 0x0FC19DC6, 0x240CA1CC,
     0x2DE92C6F, 0x4A7484AA, 0x5CB0A9DC, 0x76F988DA,
     0x983E5152, 0xA831C66D, 0xB00327C8, 0xBF597FC7,
     0xC6E00BF3, 0xD5A79147, 0x06CA6351, 0x14292967,
     0x27B70A85, 0x2E1B2138, 0x4D2C6DFC, 0x53380D13,
     0x650A7354, 0x766A0ABB, 0x81C2C92E, 0x92722C85,
     0xA2BFE8A1, 0xA81A664B, 0xC24B8B70, 0xC76C51A3,
     0xD192E819, 0xD6990624, 0xF40E3585, 0x106AA070,
     0x19A4C116, 0x1E376C08, 0x2748774C, 0x34B0BCB5,
     0x391C0CB3, 0x4ED8AA4A, 0x5B9CCA4F, 0x682E6FF3,
     0x748F82EE, 0x78A5636F, 0x84C87814, 0x8CC70208,
     0x90BEFFFA, 0xA4506CEB, 0xBEF9A3F7, 0xC67178F2]"

definition H256_init :: sha_state where
  "H256_init = (0x6A09E667, 0xBB67AE85, 0x3C6EF372, 0xA54FF53A, 0x510E527F, 0x9B05688C, 0x1F83D9AB, 0x5BE0CD19)"

definition rotr :: "nat \<Rightarrow> 32 word \<Rightarrow> 32 word" where
  "rotr n x = drop_bit n x OR push_bit (32 - n) x"

definition Ch :: "32 word \<Rightarrow> 32 word \<Rightarrow> 32 word \<Rightarrow> 32 word" where
  "Ch x y z = (x AND y) XOR (NOT x AND z)"

definition Maj :: "32 word \<Rightarrow> 32 word \<Rightarrow> 32 word \<Rightarrow> 32 word" where
  "Maj x y z = (x AND y) XOR (x AND z) XOR (y AND z)"

definition bsig0 :: "32 word \<Rightarrow> 32 word" where
  "bsig0 x = rotr 2 x XOR rotr 13 x XOR rotr 22 x"

definition bsig1 :: "32 word \<Rightarrow> 32 word" where
  "bsig1 x = rotr 6 x XOR rotr 11 x XOR rotr 25 x"

definition ssig0 :: "32 word \<Rightarrow> 32 word" where
  "ssig0 x = rotr 7 x XOR rotr 18 x XOR drop_bit 3 x"

definition ssig1 :: "32 word \<Rightarrow> 32 word" where
  "ssig1 x = rotr 17 x XOR rotr 19 x XOR drop_bit 10 x"

definition be64 :: "64 word \<Rightarrow> byte list" where
  "be64 n = map (\<lambda>i. ucast (drop_bit i n)) [56, 48, 40, 32, 24, 16, 8, 0]"

definition sha256_pad :: "byte list \<Rightarrow> byte list" where
  "sha256_pad m =
     m @ [0x80] @ replicate ((119 - length m mod 64) mod 64) 0 @ be64 (of_nat (8 * length m))"

definition word32 :: "byte \<Rightarrow> byte \<Rightarrow> byte \<Rightarrow> byte \<Rightarrow> 32 word" where
  "word32 a b c d =
     push_bit 24 (ucast a) OR push_bit 16 (ucast b) OR push_bit 8 (ucast c) OR ucast d"

fun words_of :: "byte list \<Rightarrow> 32 word list" where
  "words_of (a # b # c # d # rest) = word32 a b c d # words_of rest"
| "words_of _ = []"

fun blocks_of :: "32 word list \<Rightarrow> 32 word list list" where
  "blocks_of (w0 # w1 # w2 # w3 # w4 # w5 # w6 # w7 # w8 # w9 # w10 # w11 # w12 # w13 # w14 # w15 # rest) =
     [w0, w1, w2, w3, w4, w5, w6, w7, w8, w9, w10, w11, w12, w13, w14, w15] # blocks_of rest"
| "blocks_of _ = []"

definition schedule_step :: "32 word list \<Rightarrow> nat \<Rightarrow> 32 word list" where
  "schedule_step w t =
     w @ [ssig1 (w ! (t - 2)) + w ! (t - 7) + ssig0 (w ! (t - 15)) + w ! (t - 16)]"

definition schedule :: "32 word list \<Rightarrow> 32 word list" where
  "schedule block = foldl schedule_step block [16..<64]"

definition sha_round :: "sha_state \<Rightarrow> 32 word \<times> 32 word \<Rightarrow> sha_state" where
  "sha_round s kw =
     (case s of (a, b, c, d, e, f, g, h) \<Rightarrow>
        let t1 = h + bsig1 e + Ch e f g + fst kw + snd kw;
            t2 = bsig0 a + Maj a b c
        in (t1 + t2, a, b, c, d + t1, e, f, g))"

definition compress :: "sha_state \<Rightarrow> 32 word list \<Rightarrow> sha_state" where
  "compress H block =
     (case H of (h0, h1, h2, h3, h4, h5, h6, h7) \<Rightarrow>
        (case foldl sha_round H (zip K256 (schedule block)) of
           (a, b, c, d, e, f, g, h) \<Rightarrow>
             (h0 + a, h1 + b, h2 + c, h3 + d, h4 + e, h5 + f, h6 + g, h7 + h)))"

definition sha256 :: "byte list \<Rightarrow> sha_state" where
  "sha256 m = foldl compress H256_init (blocks_of (words_of (sha256_pad m)))"

text \<open>\<^verbatim>\<open>hexdigest()\<close>: the eight state words as 64 lower-case hexadecimal digits.\<close>

definition hex_digit :: "32 word \<Rightarrow> char" where
  "hex_digit w = ''0123456789abcdef'' ! unat (w AND 0xF)"

definition hex32 :: "32 word \<Rightarrow> string" where
  "hex32 w = map (\<lambda>i. hex_digit (drop_bit i w)) [28, 24, 20, 16, 12, 8, 4, 0]"

definition hexdigest :: "sha_state \<Rightarrow> string" where
  "hexdigest s =
     (case s of (a, b, c, d, e, f, g, h) \<Rightarrow>
        hex32 a @ hex32 b @ hex32 c @ hex32 d @ hex32 e @ hex32 f @ hex32 g @ hex32 h)"

definition make_key :: "nat list \<Rightarrow> pyerror + string" where
  "make_key text =
     (case encode_utf8 text of
        Inl e \<Rightarrow> Inl e
      | Inr bs \<Rightarrow> Inr (''classify:'' @ hexdigest (sha256 bs)))"

section \<open>Stored values as object references\<close>

text \<open>
  A Python value is a reference to an object. To speak about a caller changing the
  object it received, objects live in a heap, the cache stores references, and an
  in-place mutation of an object is an update of the heap at its reference.
\<close>

type_synonym ref = nat

type_synonym 'o heap = "ref \<rightharpoonup> 'o"

definition heap_update :: "'o heap \<Rightarrow> ref \<Rightarrow> 'o \<Rightarrow> 'o heap" where
  "heap_update h r obj = h(r \<mapsto> obj)"

text \<open>The contents, in heap \<open>h\<close>, of the object that \<^verbatim>\<open>get\<close> returns.\<close>

definition get_deref :: "'o heap \<Rightarrow> ref store \<Rightarrow> string \<Rightarrow> datetime \<Rightarrow> 'o option" where
  "get_deref h s key now =
     (case fst (InMemoryCache_get s key now) of None \<Rightarrow> None | Some r \<Rightarrow> h r)"

section \<open>Provider responses and their normalization\<close>

text \<open>
  What a provider returns is a decoded JSON document. The type \<open>'f\<close> stands for Python's
  \<^verbatim>\<open>float\<close>, whose values are only passed along. A dictionary is the list of its
  key-value pairs, with distinct keys.
\<close>

datatype 'f json =
    JNull
  | JBool bool
  | JInt int
  | JFloat 'f
  | JStr string
  | JList "'f json list"
  | JDict "(string \<times> 'f json) list"

text \<open>
  The builtins \<^verbatim>\<open>float\<close> and \<^verbatim>\<open>str\<close> are parameters where their result depends on
  floating point or on the printed form of a value: the conversion of an integer (which
  raises \<^verbatim>\<open>OverflowError\<close> when it is too large), the parsing of a string (which raises
  \<^verbatim>\<open>ValueError\<close> when it is not a number) and the printed form of a value that is not a
  string. What does not depend on them is fixed: \<^verbatim>\<open>float\<close> of a float is that float,
  \<^verbatim>\<open>float\<close> of \<^verbatim>\<open>None\<close>, of a list or of a dictionary raises \<^verbatim>\<open>TypeError\<close>, and
  \<^verbatim>\<open>str\<close> of a string is that string.
\<close>

record 'f builtins =
  float_of_int :: "int \<Rightarrow> 'f option"
  float_of_str :: "string \<Rightarrow> 'f option"
  repr :: "'f json \<Rightarrow> string"

definition py_float :: "'f builtins \<Rightarrow> 'f json \<Rightarrow> pyerror + 'f" where
  "py_float B v =
     (case v of
        JFloat x \<Rightarrow> Inr x
      | JInt i \<Rightarrow> (case float_of_int B i of None \<Rightarrow> Inl OverflowError | Some x \<Rightarrow> Inr x)
      | JBool b \<Rightarrow>
          (case float_of_int B (if b then 1 else 0) of
             None \<Rightarrow> Inl OverflowError
           | Some x \<Rightarrow> Inr x)
      | JStr s \<Rightarrow> (case float_of_str B s of None \<Rightarrow> Inl ValueError | Some x \<Rightarrow> Inr x)
      | JNull \<Rightarrow> Inl TypeError
      | JList xs \<Rightarrow> Inl TypeError
      | JDict kvs \<Rightarrow> Inl TypeError)"

definition py_str :: "'f builtins \<Rightarrow> 'f json \<Rightarrow> string" where
  "py_str B v = (case v of JStr s \<Rightarrow> s | _ \<Rightarrow> repr B v)"

record 'f Label =
  label :: string
  score :: 'f

text \<open>
  The loop of \<^verbatim>\<open>normalize\<close>: an item that is a dictionary with both keys is converted
  and appended, any other item is skipped. A conversion that raises ends the loop with
  that exception.
\<close>

fun normalize_items :: "'f builtins \<Rightarrow> 'f json list \<Rightarrow> pyerror + 'f Label list" where
  "normalize_items B [] = Inr []"
| "normalize_items B (item # rest) =
     (case item of
        JDict kvs \<Rightarrow>
          (case (map_of kvs ''label'', map_of kvs ''score'') of
             (Some l, Some sc) \<Rightarrow>
               (case py_float B sc of
                  Inl e \<Rightarrow> Inl e
                | Inr x \<Rightarrow>
                    (case normalize_items B rest of
                       Inl e \<Rightarrow> Inl e
                     | Inr final \<Rightarrow> Inr (\<lparr>label = py_str B l, score = x\<rparr> # final)))
           | _ \<Rightarrow> normalize_items B rest)
      | _ \<Rightarrow> normalize_items B rest)"

text \<open>
  \<^verbatim>\<open>normalize\<close>: anything but a list gives the empty list; a list whose first element
  is a list is replaced by that element.
\<close>

definition normalize :: "'f builtins \<Rightarrow> 'f json \<Rightarrow> pyerror + 'f Label list" where
  "normalize B raw =
     (case raw of
        JList xs \<Rightarrow>
          (case xs of
             JList ys # _ \<Rightarrow> normalize_items B ys
           | _ \<Rightarrow> normalize_items B xs)
      | _ \<Rightarrow> Inr [])"

section \<open>The classify operation\<close>

text \<open>
  The module constants read from the environment at start-up, the cached result
  \<^verbatim>\<open>{"labels": ..., "provider": ...}\<close>, the response, and the two ways a request fails:
  an \<^verbatim>\<open>HTTPException\<close> raised by the handler, or an exception the handler does not catch.
\<close>

record config =
  PROVIDER :: string
  CACHE_TTL :: int

record 'f cached_result =
  res_labels :: "'f Label list"
  res_provider :: string

record 'f ClassifyResponse =
  labels :: "'f Label list"
  from_cache :: bool
  meta_provider :: string

datatype failure = HTTPException nat string | Unhandled pyerror

text \<open>
  The call of the provider is input and output; its outcome is an argument of the model:
  a returned document, or one of the three exception classes the handler tells apart.
\<close>

datatype 'f provider_outcome =
    Returned "'f json"
  | TimeoutException
  | HTTPError
  | OtherException

text \<open>
  \<^verbatim>\<open>classify\<close>, with the two clock readings taken by \<^verbatim>\<open>cache.get\<close> and
  \<^verbatim>\<open>cache.set\<close>. A cached result is a dictionary of two entries, so \<^verbatim>\<open>if cached\<close> holds
  exactly when \<^verbatim>\<open>get\<close> returned a value. The result is the response or failure, and the
  store afterwards.
\<close>

definition classify ::
  "config \<Rightarrow> 'f builtins \<Rightarrow> 'f cached_result store \<Rightarrow> nat list \<Rightarrow> datetime \<Rightarrow> datetime \<Rightarrow>
   'f provider_outcome \<Rightarrow> (failure + 'f ClassifyResponse) \<times> 'f cached_result store" where
  "classify cfg B st text t_get t_set outcome =
     (case make_key text of
        Inl e \<Rightarrow> (Inl (Unhandled e), st)
      | Inr key \<Rightarrow>
          (case InMemoryCache_get st key t_get of
             (Some cached, st1) \<Rightarrow>
               (Inr \<lparr>labels = res_labels cached, from_cache = True,
                     meta_provider = res_provider cached\<rparr>, st1)
           | (None, st1) \<Rightarrow>
               (case outcome of
                  TimeoutException \<Rightarrow>
                    (Inl (HTTPException 502 ''External service timeout''), st1)
                | HTTPError \<Rightarrow>
                    (Inl (HTTPException 502 ''External ML service error''), st1)
                | OtherException \<Rightarrow>
                    (Inl (HTTPException 500 ''Unexpected ML provider error''), st1)
                | Returned raw \<Rightarrow>
                    (case normalize B raw of
                       Inl e \<Rightarrow> (Inl (Unhandled e), st1)
                     | Inr ls \<Rightarrow>
                         if ls = [] then
                           (Inl (HTTPException 502
                                  ''Invalid response format from ML provider''), st1)
                         else
                           (Inr \<lparr>labels = ls, from_cache = False,
                                 meta_provider = PROVIDER cfg\<rparr>,
                            case InMemoryCache_set st1 key
                                   \<lparr>res_labels = ls, res_provider = PROVIDER cfg\<rparr>
                                   (CACHE_TTL cfg) t_set of
                              Inl e \<Rightarrow> st1
                            | Inr st2 \<Rightarrow> st2)))))"

section \<open>Properties of the cache store\<close>

lemma timedelta_seconds_small:
  "\<bar>ttl\<bar> \<le> 86400 \<Longrightarrow> timedelta_seconds ttl = Inr (ttl * 1000000)"
proof -
  assume a: "\<bar>ttl\<bar> \<le> 86400"
  have "ttl div 86400 \<le> 86400 div 86400" using a by (intro zdiv_mono1) auto
  moreover have "(- 86400) div 86400 \<le> ttl div 86400" using a by (intro zdiv_mono1) auto
  ultimately have "\<bar>ttl div 86400\<bar> \<le> 1" by simp
  then have "\<not> \<bar>ttl div 86400\<bar> > MAX_DELTA_DAYS"
    unfolding MAX_DELTA_DAYS_def by linarith
  then show ?thesis
    by (simp add: timedelta_seconds_def US_PER_SECOND_def)
qed

lemma set_result:
  "InMemoryCache_set s k v ttl now = Inr s' \<Longrightarrow>
     s' = s(k \<mapsto> \<lparr>rec_value = v, expires_at = now + ttl * 1000000\<rparr>)"
  by (auto simp: InMemoryCache_set_def timedelta_seconds_def datetime_add_def
      US_PER_SECOND_def split: if_splits sum.splits)

lemma set_succeeds_small:
  "\<bar>ttl\<bar> \<le> 86400 \<Longrightarrow> datetime_in_range (now + ttl * 1000000) \<Longrightarrow>
     InMemoryCache_set s k v ttl now =
       Inr (s(k \<mapsto> \<lparr>rec_value = v, expires_at = now + ttl * 1000000\<rparr>))"
  by (simp add: InMemoryCache_set_def timedelta_seconds_small datetime_add_def)

lemma get_live:
  "s k = Some r \<Longrightarrow> \<not> expires_at r < now \<Longrightarrow>
     InMemoryCache_get s k now = (Some (rec_value r), s)"
  by (simp add: InMemoryCache_get_def)

lemma get_expired:
  "s k = Some r \<Longrightarrow> expires_at r < now \<Longrightarrow>
     InMemoryCache_get s k now = (None, s(k := None))"
  by (simp add: InMemoryCache_get_def)

lemma get_missing:
  "s k = None \<Longrightarrow> InMemoryCache_get s k now = (None, s)"
  by (simp add: InMemoryCache_get_def)

text \<open>
  C3 (miss then hit). A key with no record gives absent and leaves the store alone, in
  particular in the empty store. A \<^verbatim>\<open>set\<close> with \<^verbatim>\<open>ttl=60\<close> whose expiry time is a
  representable datetime returns, and a \<^verbatim>\<open>get\<close> of the same key at any clock reading up
  to that expiry time (so also immediately) returns the value that was set.
\<close>

theorem C3_miss_then_hit:
  "(s k = None \<longrightarrow> InMemoryCache_get s k now = (None, s)) \<and>
   InMemoryCache_get Map.empty k now = (None, Map.empty) \<and>
   (datetime_in_range (t + 60 * 1000000) \<and> t' \<le> t + 60 * 1000000 \<longrightarrow>
      (\<exists>s1. InMemoryCache_set s0 k v 60 t = Inr s1 \<and>
            InMemoryCache_get s1 k t' = (Some v, s1)))"
proof (intro conjI impI)
  show "InMemoryCache_get Map.empty k now = (None, Map.empty)"
    by (simp add: get_missing)
next
  assume "s k = None"
  then show "InMemoryCache_get s k now = (None, s)" by (rule get_missing)
next
  assume a: "datetime_in_range (t + 60 * 1000000) \<and> t' \<le> t + 60 * 1000000"
  let ?s1 = "s0(k \<mapsto> \<lparr>rec_value = v, expires_at = t + 60 * 1000000\<rparr>)"
  have "InMemoryCache_set s0 k v 60 t = Inr ?s1"
    using a set_succeeds_small [of 60 t s0 k v] by simp
  moreover have "InMemoryCache_get ?s1 k t' = (Some v, ?s1)"
    using a by (simp add: InMemoryCache_get_def)
  ultimately show "\<exists>s1. InMemoryCache_set s0 k v 60 t = Inr s1 \<and>
            InMemoryCache_get s1 k t' = (Some v, s1)" by blast
qed

theorem C3_miss_then_hit_witness:
  "(Map.empty :: nat store) ''a'' = None \<and>
   InMemoryCache_get (Map.empty :: nat store) ''a'' 5 = (None, Map.empty) \<and>
   datetime_in_range (5 + 60 * 1000000) \<and> (5::int) \<le> 5 + 60 * 1000000 \<and>
   (\<exists>s1. InMemoryCache_set Map.empty ''a'' (7::nat) 60 5 = Inr s1 \<and>
         InMemoryCache_get s1 ''a'' 5 = (Some 7, s1))"
proof -
  have h: "datetime_in_range (5 + 60 * 1000000) \<and> (5::int) \<le> 5 + 60 * 1000000"
    by (simp add: datetime_in_range_def MAXORDINAL_def US_PER_DAY_def)
  from C3_miss_then_hit [of "Map.empty :: nat store" "''a''" 5 5 5 Map.empty "7::nat"] h
  show ?thesis by auto
qed

text \<open>
  C1 as stated fails on the boundary: a record whose expiry equals the clock reading is
  still returned and kept, because the comparison in \<^verbatim>\<open>get\<close> is strict. The same
  reading occurs when \<^verbatim>\<open>set\<close> with \<^verbatim>\<open>ttl=0\<close> and the following \<^verbatim>\<open>get\<close> see the same
  clock value.
\<close>

theorem C1_boundary_counterexample:
  "expires_at \<lparr>rec_value = 1::nat, expires_at = 100\<rparr> \<le> 100 \<and>
   InMemoryCache_get [''k'' \<mapsto> \<lparr>rec_value = 1::nat, expires_at = 100\<rparr>] ''k'' 100 =
     (Some 1, [''k'' \<mapsto> \<lparr>rec_value = 1::nat, expires_at = 100\<rparr>]) \<and>
   InMemoryCache_set Map.empty ''k'' (1::nat) 0 100 =
     Inr [''k'' \<mapsto> \<lparr>rec_value = 1::nat, expires_at = 100\<rparr>]"
  by (simp add: InMemoryCache_get_def InMemoryCache_set_def timedelta_seconds_def
      datetime_add_def datetime_in_range_def MAX_DELTA_DAYS_def MAXORDINAL_def
      US_PER_DAY_def US_PER_SECOND_def)

text \<open>
  C1 (amended). For every key whose stored record has an expiry strictly before the clock
  reading, \<^verbatim>\<open>get\<close> deletes the record and returns absent; a record whose expiry equals
  the clock reading is still returned and kept. After a \<^verbatim>\<open>set\<close> with \<^verbatim>\<open>ttl \<le> 0\<close>
  that returned, a following \<^verbatim>\<open>get\<close> of the key returns absent (and deletes the
  record) when its clock reading is strictly later than the one of the \<^verbatim>\<open>set\<close>, or
  not earlier when \<^verbatim>\<open>ttl < 0\<close>; after a \<^verbatim>\<open>set\<close> with \<^verbatim>\<open>ttl = 0\<close>, a \<^verbatim>\<open>get\<close> at the
  same clock reading still returns the value and keeps the record.
\<close>

theorem C1_expired_get:
  "(s k = Some r \<and> expires_at r < now \<longrightarrow>
      InMemoryCache_get s k now = (None, s(k := None))) \<and>
   (s k = Some r \<longrightarrow>
      InMemoryCache_get s k (expires_at r) = (Some (rec_value r), s)) \<and>
   (InMemoryCache_set s0 k v ttl t = Inr s1 \<and> ttl \<le> 0 \<and> (t < t' \<or> (ttl < 0 \<and> t \<le> t')) \<longrightarrow>
      InMemoryCache_get s1 k t' = (None, s1(k := None))) \<and>
   (InMemoryCache_set s0 k v 0 t = Inr s1 \<longrightarrow>
      InMemoryCache_get s1 k t = (Some v, s1))"
proof (intro conjI impI)
  assume "s k = Some r \<and> expires_at r < now"
  then show "InMemoryCache_get s k now = (None, s(k := None))"
    by (simp add: get_expired)
next
  assume "s k = Some r"
  then show "InMemoryCache_get s k (expires_at r) = (Some (rec_value r), s)"
    by (simp add: get_live)
next
  assume a: "InMemoryCache_set s0 k v ttl t = Inr s1 \<and> ttl \<le> 0 \<and>
    (t < t' \<or> (ttl < 0 \<and> t \<le> t'))"
  let ?r = "\<lparr>rec_value = v, expires_at = t + ttl * 1000000\<rparr>"
  from a have s1: "s1 = s0(k \<mapsto> ?r)" by (simp add: set_result)
  from a have "t + ttl * 1000000 < t'" by linarith
  then have "expires_at ?r < t'" by simp
  moreover have "s1 k = Some ?r" using s1 by simp
  ultimately show "InMemoryCache_get s1 k t' = (None, s1(k := None))"
    by (rule get_expired [rotated])
next
  assume a: "InMemoryCache_set s0 k v 0 t = Inr s1"
  let ?r = "\<lparr>rec_value = v, expires_at = t\<rparr>"
  from a have "s1 = s0(k \<mapsto> ?r)" using set_result [of s0 k v 0 t s1] by simp
  then have "s1 k = Some ?r" by simp
  then show "InMemoryCache_get s1 k t = (Some v, s1)"
    using get_live [of s1 k ?r t] by simp
qed

theorem C1_expired_get_witness:
  "[''k'' \<mapsto> \<lparr>rec_value = 1::nat, expires_at = 100\<rparr>] ''k'' =
     Some \<lparr>rec_value = 1::nat, expires_at = 100\<rparr> \<and>
   expires_at \<lparr>rec_value = 1::nat, expires_at = 100\<rparr> < 101 \<and>
   InMemoryCache_set Map.empty ''k'' (1::nat) 0 100 =
     Inr [''k'' \<mapsto> \<lparr>rec_value = 1::nat, expires_at = 100\<rparr>] \<and>
   (0::int) \<le> 0 \<and> (100::int) < 101 \<and>
   InMemoryCache_get [''k'' \<mapsto> \<lparr>rec_value = 1::nat, expires_at = 100\<rparr>] ''k'' 101 =
     (None, [''k'' \<mapsto> \<lparr>rec_value = 1::nat, expires_at = 100\<rparr>](''k'' := None)) \<and>
   InMemoryCache_get [''k'' \<mapsto> \<lparr>rec_value = 1::nat, expires_at = 100\<rparr>] ''k'' 100 =
     (Some 1, [''k'' \<mapsto> \<lparr>rec_value = 1::nat, expires_at = 100\<rparr>])"
proof -
  let ?s = "[''k'' \<mapsto> \<lparr>rec_value = 1::nat, expires_at = 100\<rparr>]"
  have h: "InMemoryCache_set Map.empty ''k'' (1::nat) 0 100 = Inr ?s"
    by (simp add: InMemoryCache_set_def timedelta_seconds_def
      datetime_add_def datetime_in_range_def MAX_DELTA_DAYS_def MAXORDINAL_def
      US_PER_DAY_def US_PER_SECOND_def)
  from C1_expired_get [of ?s "''k''" "\<lparr>rec_value = 1::nat, expires_at = 100\<rparr>" 101
      Map.empty 1 0 100 ?s 101] h
  show ?thesis by simp
qed

text \<open>
  C4 (expiry). After a \<^verbatim>\<open>set\<close> with \<^verbatim>\<open>ttl=1\<close> (which returns whenever its expiry time
  is a representable datetime), a \<^verbatim>\<open>get\<close> of the key at a clock reading strictly more
  than one second later returns absent, and that same \<^verbatim>\<open>get\<close> removes the key: the
  number of keys of the (finite) dictionary goes down by one.
\<close>

theorem C4_expiry_evicts:
  "finite (dom s0) \<and> datetime_in_range (t + 1000000) \<and> t + 1000000 < t' \<longrightarrow>
     (\<exists>s1 s2. InMemoryCache_set s0 k v 1 t = Inr s1 \<and>
        InMemoryCache_get s1 k t' = (None, s2) \<and>
        k \<in> dom s1 \<and> k \<notin> dom s2 \<and>
        card (dom s1) = Suc (card (dom s2)))"
proof
  assume a: "finite (dom s0) \<and> datetime_in_range (t + 1000000) \<and> t + 1000000 < t'"
  let ?r = "\<lparr>rec_value = v, expires_at = t + 1 * 1000000\<rparr>"
  let ?s1 = "s0(k \<mapsto> ?r)"
  let ?s2 = "?s1(k := None)"
  have set1: "InMemoryCache_set s0 k v 1 t = Inr ?s1"
    using a set_succeeds_small [of 1 t s0 k v] by simp
  have get1: "InMemoryCache_get ?s1 k t' = (None, ?s2)"
    using a by (intro get_expired [where r = ?r]) auto
  have fin: "finite (dom ?s1)" using a by simp
  have "dom ?s2 = dom ?s1 - {k}" by auto
  moreover have "k \<in> dom ?s1" by simp
  ultimately have "card (dom ?s1) = Suc (card (dom ?s2))"
    using a by (simp add: card.insert_remove)
  with set1 get1 show "\<exists>s1 s2. InMemoryCache_set s0 k v 1 t = Inr s1 \<and>
        InMemoryCache_get s1 k t' = (None, s2) \<and>
        k \<in> dom s1 \<and> k \<notin> dom s2 \<and>
        card (dom s1) = Suc (card (dom s2))"
    by (intro exI [of _ ?s1] exI [of _ ?s2]) simp
qed

theorem C4_expiry_evicts_witness:
  "finite (dom (Map.empty :: nat store)) \<and> datetime_in_range (5 + 1000000) \<and>
   (5::int) + 1000000 < 1000006 \<and>
   (\<exists>s1 s2. InMemoryCache_set (Map.empty :: nat store) ''a'' 7 1 5 = Inr s1 \<and>
        InMemoryCache_get s1 ''a'' 1000006 = (None, s2) \<and>
        ''a'' \<in> dom s1 \<and> ''a'' \<notin> dom s2 \<and>
        card (dom s1) = Suc (card (dom s2)))"
proof -
  have h: "finite (dom (Map.empty :: nat store)) \<and> datetime_in_range (5 + 1000000) \<and>
    (5::int) + 1000000 < 1000006"
    by (simp add: datetime_in_range_def MAXORDINAL_def US_PER_DAY_def)
  from C4_expiry_evicts [of "Map.empty :: nat store" 5 1000006 "''a''" 7] h
  show ?thesis by blast
qed

text \<open>
  C5 (overwrite). A \<^verbatim>\<open>set\<close> that returns has stored exactly the new record under its
  key, whatever was there before. Two successive \<^verbatim>\<open>set\<close> calls with \<^verbatim>\<open>ttl=60\<close> on the
  same key (each returns when its expiry time is representable) leave the store as if
  only the second had happened: the record is the second value with the second expiry,
  and a \<^verbatim>\<open>get\<close> up to that expiry returns the second value.
\<close>

theorem C5_overwrite:
  "(InMemoryCache_set s k v ttl now = Inr s' \<longrightarrow>
      s' = s(k \<mapsto> \<lparr>rec_value = v, expires_at = now + ttl * 1000000\<rparr>)) \<and>
   (datetime_in_range (t1 + 60 * 1000000) \<and> datetime_in_range (t2 + 60 * 1000000) \<and>
    t3 \<le> t2 + 60 * 1000000 \<longrightarrow>
      (\<exists>s1 s2. InMemoryCache_set s0 k v1 60 t1 = Inr s1 \<and>
         InMemoryCache_set s1 k v2 60 t2 = Inr s2 \<and>
         s2 = s0(k \<mapsto> \<lparr>rec_value = v2, expires_at = t2 + 60 * 1000000\<rparr>) \<and>
         s2 k = Some \<lparr>rec_value = v2, expires_at = t2 + 60 * 1000000\<rparr> \<and>
         InMemoryCache_get s2 k t3 = (Some v2, s2)))"
proof (intro conjI impI)
  assume "InMemoryCache_set s k v ttl now = Inr s'"
  then show "s' = s(k \<mapsto> \<lparr>rec_value = v, expires_at = now + ttl * 1000000\<rparr>)"
    by (rule set_result)
next
  assume a: "datetime_in_range (t1 + 60 * 1000000) \<and> datetime_in_range (t2 + 60 * 1000000) \<and>
    t3 \<le> t2 + 60 * 1000000"
  let ?s1 = "s0(k \<mapsto> \<lparr>rec_value = v1, expires_at = t1 + 60 * 1000000\<rparr>)"
  let ?r2 = "\<lparr>rec_value = v2, expires_at = t2 + 60 * 1000000\<rparr>"
  let ?s2 = "s0(k \<mapsto> ?r2)"
  have set1: "InMemoryCache_set s0 k v1 60 t1 = Inr ?s1"
    using a set_succeeds_small [of 60 t1 s0 k v1] by simp
  have "InMemoryCache_set ?s1 k v2 60 t2 = Inr (?s1(k \<mapsto> ?r2))"
    using a set_succeeds_small [of 60 t2 ?s1 k v2] by simp
  then have set2: "InMemoryCache_set ?s1 k v2 60 t2 = Inr ?s2" by simp
  have get2: "InMemoryCache_get ?s2 k t3 = (Some v2, ?s2)"
    using a get_live [of ?s2 k ?r2 t3] by simp
  from set1 set2 get2
  show "\<exists>s1 s2. InMemoryCache_set s0 k v1 60 t1 = Inr s1 \<and>
         InMemoryCache_set s1 k v2 60 t2 = Inr s2 \<and>
         s2 = s0(k \<mapsto> ?r2) \<and> s2 k = Some ?r2 \<and>
         InMemoryCache_get s2 k t3 = (Some v2, s2)"
    by (intro exI [of _ ?s1] exI [of _ ?s2]) simp
qed

theorem C5_overwrite_witness:
  "InMemoryCache_set (Map.empty :: nat store) ''a'' 1 60 5 =
     Inr [''a'' \<mapsto> \<lparr>rec_value = 1, expires_at = 5 + 60 * 1000000\<rparr>] \<and>
   datetime_in_range (5 + 60 * 1000000) \<and> datetime_in_range (6 + 60 * 1000000) \<and>
   (7::int) \<le> 6 + 60 * 1000000 \<and>
   (\<exists>s1 s2. InMemoryCache_set (Map.empty :: nat store) ''a'' 1 60 5 = Inr s1 \<and>
         InMemoryCache_set s1 ''a'' 2 60 6 = Inr s2 \<and>
         s2 = [''a'' \<mapsto> \<lparr>rec_value = 2, expires_at = 6 + 60 * 1000000\<rparr>] \<and>
         s2 ''a'' = Some \<lparr>rec_value = 2, expires_at = 6 + 60 * 1000000\<rparr> \<and>
         InMemoryCache_get s2 ''a'' 7 = (Some 2, s2))"
proof -
  have h: "datetime_in_range (5 + 60 * 1000000) \<and> datetime_in_range (6 + 60 * 1000000) \<and>
    (7::int) \<le> 6 + 60 * 1000000"
    by (simp add: datetime_in_range_def MAXORDINAL_def US_PER_DAY_def)
  have s: "InMemoryCache_set (Map.empty :: nat store) ''a'' 1 60 5 =
     Inr [''a'' \<mapsto> \<lparr>rec_value = 1, expires_at = 5 + 60 * 1000000\<rparr>]"
    using h set_succeeds_small [of 60 5 "Map.empty :: nat store" "''a''" 1] by simp
  from C5_overwrite [of "Map.empty :: nat store" "''a''" 1 60 5
      "[''a'' \<mapsto> \<lparr>rec_value = 1, expires_at = 5 + 60 * 1000000\<rparr>]" 5 6 7
      "Map.empty :: nat store" 1 2] h s
  show ?thesis by blast
qed

text \<open>
  C9 (frame). \<^verbatim>\<open>get\<close> and \<^verbatim>\<open>set\<close> on a key leave the record under every other key as
  it was, and the store after \<^verbatim>\<open>get\<close> is either the store before or the store before
  with the key of the call deleted.
\<close>

theorem C9_frame:
  "(k' \<noteq> k \<longrightarrow>
      snd (InMemoryCache_get s k now) k' = s k' \<and>
      (InMemoryCache_set s k v ttl now = Inr s' \<longrightarrow> s' k' = s k')) \<and>
   (snd (InMemoryCache_get s k now) = s \<or> snd (InMemoryCache_get s k now) = s(k := None))"
proof (intro conjI impI)
  assume "k' \<noteq> k"
  then show "snd (InMemoryCache_get s k now) k' = s k'"
    by (simp add: InMemoryCache_get_def split: option.splits)
next
  assume "k' \<noteq> k" and "InMemoryCache_set s k v ttl now = Inr s'"
  then show "s' k' = s k'" using set_result [of s k v ttl now s'] by simp
next
  show "snd (InMemoryCache_get s k now) = s \<or> snd (InMemoryCache_get s k now) = s(k := None)"
    by (simp add: InMemoryCache_get_def split: option.splits)
qed

theorem C9_frame_witness:
  "''b'' \<noteq> ''a'' \<and>
   InMemoryCache_set [''b'' \<mapsto> \<lparr>rec_value = 1::nat, expires_at = 3\<rparr>] ''a'' 2 0 9 =
     Inr [''b'' \<mapsto> \<lparr>rec_value = 1::nat, expires_at = 3\<rparr>,
          ''a'' \<mapsto> \<lparr>rec_value = 2, expires_at = 9\<rparr>] \<and>
   snd (InMemoryCache_get [''b'' \<mapsto> \<lparr>rec_value = 1::nat, expires_at = 3\<rparr>] ''a'' 9) ''b'' =
     Some \<lparr>rec_value = 1::nat, expires_at = 3\<rparr> \<and>
   [''b'' \<mapsto> \<lparr>rec_value = 1::nat, expires_at = 3\<rparr>,
    ''a'' \<mapsto> \<lparr>rec_value = 2, expires_at = 9\<rparr>] ''b'' =
     Some \<lparr>rec_value = 1::nat, expires_at = 3\<rparr>"
proof -
  let ?s = "[''b'' \<mapsto> \<lparr>rec_value = 1::nat, expires_at = 3\<rparr>]"
  let ?s' = "[''b'' \<mapsto> \<lparr>rec_value = 1::nat, expires_at = 3\<rparr>,
          ''a'' \<mapsto> \<lparr>rec_value = 2, expires_at = 9\<rparr>]"
  have h: "InMemoryCache_set ?s ''a'' 2 0 9 = Inr ?s'"
    by (simp add: InMemoryCache_set_def timedelta_seconds_def
      datetime_add_def datetime_in_range_def MAX_DELTA_DAYS_def MAXORDINAL_def
      US_PER_DAY_def US_PER_SECOND_def)
  from C9_frame [of "''b''" "''a''" ?s 9 2 0 ?s'] h
  show ?thesis by simp
qed

section \<open>Properties of values returned by reference\<close>

text \<open>
  C2 as stated fails: \<^verbatim>\<open>get\<close> returns the stored reference itself. With the list
  object \<^verbatim>\<open>["POSITIVE"]\<close> at reference 7 stored under key \<^verbatim>\<open>k\<close>, a \<^verbatim>\<open>get\<close> returns
  reference 7; after the caller empties that object in place, the next \<^verbatim>\<open>get\<close> of the
  unchanged store shows the empty list.
\<close>

theorem C2_shared_reference_counterexample:
  "InMemoryCache_get [''k'' \<mapsto> \<lparr>rec_value = 7::nat, expires_at = 100\<rparr>] ''k'' 0 =
     (Some 7, [''k'' \<mapsto> \<lparr>rec_value = 7::nat, expires_at = 100\<rparr>]) \<and>
   get_deref [7 \<mapsto> [''POSITIVE'']]
     [''k'' \<mapsto> \<lparr>rec_value = 7::nat, expires_at = 100\<rparr>] ''k'' 0 = Some [''POSITIVE''] \<and>
   get_deref (heap_update [7 \<mapsto> [''POSITIVE'']] 7 [])
     [''k'' \<mapsto> \<lparr>rec_value = 7::nat, expires_at = 100\<rparr>] ''k'' 0 = Some []"
  by (simp add: InMemoryCache_get_def get_deref_def heap_update_def)

text \<open>
  C2 (amended). For every key with a stored record that is not expired, \<^verbatim>\<open>get\<close> returns
  the stored value itself, which is the object reference that was passed to \<^verbatim>\<open>set\<close> and
  not a copy, and leaves the store unchanged. A later \<^verbatim>\<open>get\<close> before expiry returns the
  same reference, so the contents it shows are whatever the caller has made of the object
  in the meantime.
\<close>

theorem C2_get_returns_stored_reference:
  "(s k = Some r \<and> \<not> expires_at r < now \<and> \<not> expires_at r < now' \<longrightarrow>
      InMemoryCache_get s k now = (Some (rec_value r), s) \<and>
      InMemoryCache_get s k now' = (Some (rec_value r), s) \<and>
      get_deref (heap_update h (rec_value r) obj) s k now' = Some obj) \<and>
   (InMemoryCache_set s0 k a ttl t = Inr s1 \<and> \<not> t + ttl * 1000000 < t' \<longrightarrow>
      InMemoryCache_get s1 k t' = (Some a, s1))"
proof (intro conjI impI)
  assume a: "s k = Some r \<and> \<not> expires_at r < now \<and> \<not> expires_at r < now'"
  then show "InMemoryCache_get s k now = (Some (rec_value r), s)"
    by (simp add: get_live)
  from a show g: "InMemoryCache_get s k now' = (Some (rec_value r), s)"
    by (simp add: get_live)
  show "get_deref (heap_update h (rec_value r) obj) s k now' = Some obj"
    by (simp add: get_deref_def g heap_update_def)
next
  assume a: "InMemoryCache_set s0 k a ttl t = Inr s1 \<and> \<not> t + ttl * 1000000 < t'"
  let ?r = "\<lparr>rec_value = a, expires_at = t + ttl * 1000000\<rparr>"
  from a have "s1 = s0(k \<mapsto> ?r)" by (simp add: set_result)
  then have "s1 k = Some ?r" by simp
  then show "InMemoryCache_get s1 k t' = (Some a, s1)"
    using a get_live [of s1 k ?r t'] by simp
qed

theorem C2_get_returns_stored_reference_witness:
  "[''k'' \<mapsto> \<lparr>rec_value = 7::nat, expires_at = 100\<rparr>] ''k'' =
     Some \<lparr>rec_value = 7::nat, expires_at = 100\<rparr> \<and>
   \<not> expires_at \<lparr>rec_value = 7::nat, expires_at = 100\<rparr> < 0 \<and>
   \<not> expires_at \<lparr>rec_value = 7::nat, expires_at = 100\<rparr> < 1 \<and>
   InMemoryCache_set Map.empty ''k'' (7::nat) 0 100 =
     Inr [''k'' \<mapsto> \<lparr>rec_value = 7::nat, expires_at = 100\<rparr>] \<and>
   \<not> (100::int) + 0 * 1000000 < 1 \<and>
   InMemoryCache_get [''k'' \<mapsto> \<lparr>rec_value = 7::nat, expires_at = 100\<rparr>] ''k'' 1 =
     (Some 7, [''k'' \<mapsto> \<lparr>rec_value = 7::nat, expires_at = 100\<rparr>]) \<and>
   get_deref (heap_update [7 \<mapsto> [''POSITIVE'']] 7 [])
     [''k'' \<mapsto> \<lparr>rec_value = 7::nat, expires_at = 100\<rparr>] ''k'' 1 = Some []"
proof -
  let ?s = "[''k'' \<mapsto> \<lparr>rec_value = 7::nat, expires_at = 100\<rparr>]"
  have h: "InMemoryCache_set Map.empty ''k'' (7::nat) 0 100 = Inr ?s"
    by (simp add: InMemoryCache_set_def timedelta_seconds_def
      datetime_add_def datetime_in_range_def MAX_DELTA_DAYS_def MAXORDINAL_def
      US_PER_DAY_def US_PER_SECOND_def)
  from C2_get_returns_stored_reference [of ?s "''k''" "\<lparr>rec_value = 7::nat, expires_at = 100\<rparr>"
      0 1 "[7 \<mapsto> [''POSITIVE'']]" "[]" Map.empty 7 0 100 ?s 1] h
  show ?thesis by simp
qed

section \<open>Properties of classify and normalize\<close>

lemma encode_utf8_hello:
  "encode_utf8 (text_of ''hello'') = Inr [0x68, 0x65, 0x6c, 0x6c, 0x6f]"
  by (simp add: text_of_def utf8_char_def)

lemma classify_miss_returned:
  assumes "make_key text = Inr key"
    and "InMemoryCache_get st key t_get = (None, st1)"
    and "normalize B raw = Inr ls" and "ls \<noteq> []"
  shows "classify cfg B st text t_get t_set (Returned raw) =
     (Inr \<lparr>labels = ls, from_cache = False, meta_provider = PROVIDER cfg\<rparr>,
      case InMemoryCache_set st1 key \<lparr>res_labels = ls, res_provider = PROVIDER cfg\<rparr>
             (CACHE_TTL cfg) t_set of
        Inl e \<Rightarrow> st1 | Inr st2 \<Rightarrow> st2)"
  using assms by (simp add: classify_def)

text \<open>
  C7. When the request reaches the cache write (the key was derived, the cache missed,
  the provider returned and normalization gave a non-empty list) and \<^verbatim>\<open>set\<close> raises,
  \<^verbatim>\<open>classify\<close> still returns the freshly computed labels with \<^verbatim>\<open>from_cache = False\<close>,
  and the store is left as \<^verbatim>\<open>get\<close> left it.
\<close>

theorem C7_cache_write_failure_is_swallowed:
  "make_key text = Inr key \<and> InMemoryCache_get st key t_get = (None, st1) \<and>
   normalize B raw = Inr ls \<and> ls \<noteq> [] \<and>
   InMemoryCache_set st1 key \<lparr>res_labels = ls, res_provider = PROVIDER cfg\<rparr>
     (CACHE_TTL cfg) t_set = Inl e \<longrightarrow>
   classify cfg B st text t_get t_set (Returned raw) =
     (Inr \<lparr>labels = ls, from_cache = False, meta_provider = PROVIDER cfg\<rparr>, st1)"
proof
  assume a: "make_key text = Inr key \<and> InMemoryCache_get st key t_get = (None, st1) \<and>
   normalize B raw = Inr ls \<and> ls \<noteq> [] \<and>
   InMemoryCache_set st1 key \<lparr>res_labels = ls, res_provider = PROVIDER cfg\<rparr>
     (CACHE_TTL cfg) t_set = Inl e"
  then have "classify cfg B st text t_get t_set (Returned raw) =
     (Inr \<lparr>labels = ls, from_cache = False, meta_provider = PROVIDER cfg\<rparr>,
      case InMemoryCache_set st1 key \<lparr>res_labels = ls, res_provider = PROVIDER cfg\<rparr>
             (CACHE_TTL cfg) t_set of
        Inl e \<Rightarrow> st1 | Inr st2 \<Rightarrow> st2)"
    by (intro classify_miss_returned) simp_all
  with a show "classify cfg B st text t_get t_set (Returned raw) =
     (Inr \<lparr>labels = ls, from_cache = False, meta_provider = PROVIDER cfg\<rparr>, st1)"
    by simp
qed

theorem C7_cache_write_failure_is_swallowed_witness:
  "make_key (text_of ''hello'') =
     Inr (''classify:'' @ hexdigest (sha256 [0x68, 0x65, 0x6c, 0x6c, 0x6f])) \<and>
   InMemoryCache_get (Map.empty :: string cached_result store)
     (''classify:'' @ hexdigest (sha256 [0x68, 0x65, 0x6c, 0x6c, 0x6f])) 5 = (None, Map.empty) \<and>
   normalize \<lparr>float_of_int = Map.empty, float_of_str = Map.empty, repr = (\<lambda>v. ''?'')\<rparr>
     (JList [JDict [(''label'', JStr ''NEUTRAL''), (''score'', JFloat ''0.6'')]]) =
     Inr [\<lparr>label = ''NEUTRAL'', score = ''0.6''\<rparr>] \<and>
   [\<lparr>label = ''NEUTRAL'', score = ''0.6''\<rparr>] \<noteq> [] \<and>
   InMemoryCache_set (Map.empty :: string cached_result store)
     (''classify:'' @ hexdigest (sha256 [0x68, 0x65, 0x6c, 0x6c, 0x6f]))
     \<lparr>res_labels = [\<lparr>label = ''NEUTRAL'', score = ''0.6''\<rparr>], res_provider = ''mock''\<rparr>
     1000000000000000000 6 = Inl OverflowError \<and>
   classify \<lparr>PROVIDER = ''mock'', CACHE_TTL = 1000000000000000000\<rparr>
     \<lparr>float_of_int = Map.empty, float_of_str = Map.empty, repr = (\<lambda>v. ''?'')\<rparr> Map.empty
     (text_of ''hello'') 5 6
     (Returned (JList [JDict [(''label'', JStr ''NEUTRAL''), (''score'', JFloat ''0.6'')]])) =
     (Inr \<lparr>labels = [\<lparr>label = ''NEUTRAL'', score = ''0.6''\<rparr>], from_cache = False,
           meta_provider = ''mock''\<rparr>, Map.empty)"
proof -
  let ?key = "''classify:'' @ hexdigest (sha256 [0x68, 0x65, 0x6c, 0x6c, 0x6f])"
  let ?B = "\<lparr>float_of_int = Map.empty, float_of_str = Map.empty,
    repr = (\<lambda>v :: string json. ''?'')\<rparr>"
  let ?raw = "JList [JDict [(''label'', JStr ''NEUTRAL''), (''score'', JFloat ''0.6'')]]"
  let ?ls = "[\<lparr>label = ''NEUTRAL'', score = ''0.6''\<rparr>]"
  let ?cfg = "\<lparr>PROVIDER = ''mock'', CACHE_TTL = 1000000000000000000\<rparr>"
  have k: "make_key (text_of ''hello'') = Inr ?key"
    by (simp add: make_key_def encode_utf8_hello)
  have g: "InMemoryCache_get (Map.empty :: string cached_result store) ?key 5 =
      (None, Map.empty)"
    by (simp add: get_missing)
  have n: "normalize ?B ?raw = Inr ?ls"
    by (simp add: normalize_def py_float_def py_str_def)
  have w: "InMemoryCache_set (Map.empty :: string cached_result store) ?key
      \<lparr>res_labels = ?ls, res_provider = PROVIDER ?cfg\<rparr> (CACHE_TTL ?cfg) 6 = Inl OverflowError"
    by (simp add: InMemoryCache_set_def timedelta_seconds_def MAX_DELTA_DAYS_def)
  from C7_cache_write_failure_is_swallowed [of "text_of ''hello''" ?key Map.empty 5 Map.empty
      ?B ?raw ?ls ?cfg 6 OverflowError] k g n w
  show ?thesis by simp
qed

text \<open>
  C10 fails on the code: \<^verbatim>\<open>normalize\<close> does not always return a list. On the provider
  response \<^verbatim>\<open>[{"label": "x", "score": null}]\<close> the item passes the shape test
  (a dictionary with both keys) and \<^verbatim>\<open>float(None)\<close> raises \<^verbatim>\<open>TypeError\<close>; nothing in
  \<^verbatim>\<open>classify\<close> catches it, so the request ends with that exception instead of the 502
  response for an invalid provider format. Nothing is written to the cache.
\<close>

theorem C10_normalize_raises_on_null_score:
  "normalize B (JList [JDict [(''label'', JStr ''x''), (''score'', JNull)]]) = Inl TypeError \<and>
   classify \<lparr>PROVIDER = ''hf'', CACHE_TTL = ttl\<rparr> B Map.empty (text_of ''hello'') t_get t_set
     (Returned (JList [JDict [(''label'', JStr ''x''), (''score'', JNull)]])) =
     (Inl (Unhandled TypeError), Map.empty)"
proof
  show n: "normalize B (JList [JDict [(''label'', JStr ''x''), (''score'', JNull)]]) =
      Inl TypeError"
    by (simp add: normalize_def py_float_def)
  show "classify \<lparr>PROVIDER = ''hf'', CACHE_TTL = ttl\<rparr> B Map.empty (text_of ''hello'')
     t_get t_set (Returned (JList [JDict [(''label'', JStr ''x''), (''score'', JNull)]])) =
     (Inl (Unhandled TypeError), Map.empty)"
    by (simp add: classify_def make_key_def encode_utf8_hello get_missing n)
qed

section \<open>Properties of key derivation\<close>

lemma length_hex32: "length (hex32 w) = 8"
  by (simp add: hex32_def)

lemma length_hexdigest: "length (hexdigest s) = 64"
  by (simp add: hexdigest_def length_hex32 split: prod.splits)

lemma utf8_char_ok:
  "\<not> (0xD800 \<le> c \<and> c \<le> 0xDFFF) \<Longrightarrow> \<exists>bs. utf8_char c = Inr bs"
  by (simp add: utf8_char_def)

lemma encode_utf8_ok:
  "(\<forall>c\<in>set cps. \<not> (0xD800 \<le> c \<and> c \<le> 0xDFFF)) \<Longrightarrow> \<exists>bs. encode_utf8 cps = Inr bs"
proof (induction cps)
  case Nil
  then show ?case by simp
next
  case (Cons c cs)
  then obtain bs where "utf8_char c = Inr bs" using utf8_char_ok [of c] by auto
  moreover from Cons obtain rest where "encode_utf8 cs = Inr rest" by auto
  ultimately show ?case by simp
qed

lemma encode_utf8_error:
  "encode_utf8 cps = Inl e \<Longrightarrow>
     e = UnicodeEncodeError \<and> (\<exists>c\<in>set cps. 0xD800 \<le> c \<and> c \<le> 0xDFFF)"
proof (induction cps)
  case Nil
  then show ?case by simp
next
  case (Cons c cs)
  then show ?case
    by (auto simp: utf8_char_def split: sum.splits if_splits)
qed

lemma encode_utf8_Hello:
  "encode_utf8 (text_of ''Hello'') = Inr [0x48, 0x65, 0x6c, 0x6c, 0x6f]"
  by (simp add: text_of_def utf8_char_def)

text \<open>The two digests, computed by the kernel from the definitions.\<close>

lemma sha256_hello:
  "hexdigest (sha256 [0x68, 0x65, 0x6c, 0x6c, 0x6f]) =
     ''2cf24dba5fb0a30e26e83b2ac5b9e29e1b161e5c1fa7425e73043362938b9824''"
  by code_simp

lemma sha256_Hello:
  "hexdigest (sha256 [0x48, 0x65, 0x6c, 0x6c, 0x6f]) =
     ''185f8db32271fe25f561a6fc938b2e264306ec304eda518007d1764826381969''"
  by code_simp

text \<open>
  The one way \<^verbatim>\<open>make_key\<close> does not return a key: \<^verbatim>\<open>text.encode()\<close> raises on a
  surrogate code point, for instance on the one-character text \<^verbatim>\<open>"\ud800"\<close>.
\<close>

lemma make_key_surrogate_raises:
  "make_key [0xD800] = Inl UnicodeEncodeError"
  by (simp add: make_key_def utf8_char_def)

text \<open>
  C6 (key determinism). \<^verbatim>\<open>make_key\<close> is a function of its text alone, with no state
  and no clock: equal texts give equal results. Every key it returns starts with the
  tag \<^verbatim>\<open>"classify:"\<close>; for every text without a surrogate code point it does return a
  key, the tag followed by 64 hexadecimal digits, and the only way it fails is
  \<^verbatim>\<open>UnicodeEncodeError\<close> on a text that contains a surrogate. The keys of \<^verbatim>\<open>"hello"\<close>
  and \<^verbatim>\<open>"Hello"\<close> are the two given strings, and they differ.
\<close>

theorem C6_make_key:
  "(text1 = text2 \<longrightarrow> make_key text1 = make_key text2) \<and>
   ((\<forall>c\<in>set text. \<not> (0xD800 \<le> c \<and> c \<le> 0xDFFF)) \<longrightarrow>
      (\<exists>d. make_key text = Inr (''classify:'' @ d) \<and> length d = 64)) \<and>
   (make_key text = Inr key \<longrightarrow> take 9 key = ''classify:'') \<and>
   (make_key bad = Inl e \<longrightarrow>
      e = UnicodeEncodeError \<and> (\<exists>c\<in>set bad. 0xD800 \<le> c \<and> c \<le> 0xDFFF)) \<and>
   make_key (text_of ''hello'') =
     Inr ''classify:2cf24dba5fb0a30e26e83b2ac5b9e29e1b161e5c1fa7425e73043362938b9824'' \<and>
   make_key (text_of ''Hello'') =
     Inr ''classify:185f8db32271fe25f561a6fc938b2e264306ec304eda518007d1764826381969'' \<and>
   make_key (text_of ''hello'') \<noteq> make_key (text_of ''Hello'')"
proof -
  have c1: "text1 = text2 \<longrightarrow> make_key text1 = make_key text2" by simp
  have c2: "(\<forall>c\<in>set text. \<not> (0xD800 \<le> c \<and> c \<le> 0xDFFF)) \<longrightarrow>
      (\<exists>d. make_key text = Inr (''classify:'' @ d) \<and> length d = 64)"
  proof
    assume "\<forall>c\<in>set text. \<not> (0xD800 \<le> c \<and> c \<le> 0xDFFF)"
    then obtain bs where "encode_utf8 text = Inr bs" using encode_utf8_ok by blast
    then have "make_key text = Inr (''classify:'' @ hexdigest (sha256 bs))"
      by (simp add: make_key_def)
    then show "\<exists>d. make_key text = Inr (''classify:'' @ d) \<and> length d = 64"
      using length_hexdigest by blast
  qed
  have c3: "make_key text = Inr key \<longrightarrow> take 9 key = ''classify:''"
    by (auto simp: make_key_def split: sum.splits)
  have c4: "make_key bad = Inl e \<longrightarrow>
      e = UnicodeEncodeError \<and> (\<exists>c\<in>set bad. 0xD800 \<le> c \<and> c \<le> 0xDFFF)"
  proof
    assume "make_key bad = Inl e"
    then have "encode_utf8 bad = Inl e"
      by (simp add: make_key_def split: sum.splits)
    then show "e = UnicodeEncodeError \<and> (\<exists>c\<in>set bad. 0xD800 \<le> c \<and> c \<le> 0xDFFF)"
      by (rule encode_utf8_error)
  qed
  have c5: "make_key (text_of ''hello'') =
     Inr ''classify:2cf24dba5fb0a30e26e83b2ac5b9e29e1b161e5c1fa7425e73043362938b9824''"
    by (simp add: make_key_def encode_utf8_hello sha256_hello)
  have c6: "make_key (text_of ''Hello'') =
     Inr ''classify:185f8db32271fe25f561a6fc938b2e264306ec304eda518007d1764826381969''"
    by (simp add: make_key_def encode_utf8_Hello sha256_Hello)
  have c7: "make_key (text_of ''hello'') \<noteq> make_key (text_of ''Hello'')"
    by (simp add: c5 c6)
  from c1 c2 c3 c4 c5 c6 c7 show ?thesis by (intro conjI)
qed

theorem C6_make_key_witness:
  "text_of ''hello'' = [104, 101, 108, 108, 111] \<and>
   \<not> (0xD800 \<le> (104::nat) \<and> (104::nat) \<le> 0xDFFF) \<and>
   make_key (text_of ''hello'') =
     Inr ''classify:2cf24dba5fb0a30e26e83b2ac5b9e29e1b161e5c1fa7425e73043362938b9824'' \<and>
   take 9 ''classify:2cf24dba5fb0a30e26e83b2ac5b9e29e1b161e5c1fa7425e73043362938b9824'' =
     ''classify:'' \<and>
   make_key [0xD800] = Inl UnicodeEncodeError \<and>
   (0xD800::nat) \<le> 0xD800 \<and> (0xD800::nat) \<le> 0xDFFF"
proof -
  have b: "make_key [0xD800] = Inl UnicodeEncodeError"
    by (simp add: make_key_def utf8_char_def)
  have a: "\<forall>c\<in>set (text_of ''hello''). \<not> (0xD800 \<le> c \<and> c \<le> 0xDFFF)"
    by (simp add: text_of_def)
  have t: "text_of ''hello'' = [104, 101, 108, 108, 111]"
    by (simp add: text_of_def)
  from C6_make_key [of "text_of ''hello''" "text_of ''hello''" "text_of ''hello''"
      "''classify:2cf24dba5fb0a30e26e83b2ac5b9e29e1b161e5c1fa7425e73043362938b9824''"
      "[0xD800]" UnicodeEncodeError] a b t
  show ?thesis by simp
qed

end
